theory Spec2Isabelle
  imports Complex_Main "HOL-Library.Sublist" "HOL-Library.AList"
begin

section \<open>Values of the host language\<close>

text \<open>
  The framework is TypeScript. Records to validate and raw policy documents have the
  static type \<^verbatim>\<open>unknown\<close> or \<^verbatim>\<open>Record<string, unknown>\<close>, so the model needs the
  values of JavaScript that the code can tell apart: the primitives, arrays
  (\<^verbatim>\<open>Array.isArray\<close>), plain objects, \<^verbatim>\<open>Date\<close> and \<^verbatim>\<open>RegExp\<close> instances
  (\<^verbatim>\<open>instanceof\<close>), and functions (\<^verbatim>\<open>typeof\<close> is neither \<^verbatim>\<open>object\<close> nor a primitive).

  Scope of the value model: records are plain data. A plain object is the table of
  its own properties, in insertion order, and an array has its elements and its
  length; dates, patterns and functions have no properties of their own here.
  Properties inherited from a prototype, accessor properties and proxies are not
  modelled. Strings are lists of characters.
\<close>

text \<open>
  A JavaScript number is an IEEE double. The code only compares numbers
  (\<^verbatim>\<open>===\<close>, \<^verbatim>\<open><\<close>, \<^verbatim>\<open>>\<close>) and truncates them; it never computes with them. A finite
  double is therefore represented by its exact rational value (the two zeros
  coincide, as they do under every comparison used here).
\<close>

datatype jsnumber = NaN | NegInf | Fin rat | PosInf

text \<open>A \<^verbatim>\<open>Date\<close> object holds a time value in milliseconds, or NaN (an invalid date).\<close>

datatype jsdate = Date int | InvalidDate

datatype jsvalue =
    JUndefined
  | JNull
  | JBool bool
  | JNum jsnumber
  | JStr string
  | JArr "jsvalue list"
  | JObj "(string \<times> jsvalue) list"
  | JDate jsdate
  | JRegExp string
  | JFunction

datatype jstype = TUndefined | TObject | TBoolean | TNumber | TString | TFunction

fun typeof :: "jsvalue \<Rightarrow> jstype" where
  "typeof JUndefined = TUndefined"
| "typeof JNull = TObject"
| "typeof (JBool b) = TBoolean"
| "typeof (JNum n) = TNumber"
| "typeof (JStr s) = TString"
| "typeof (JArr xs) = TObject"
| "typeof (JObj kvs) = TObject"
| "typeof (JDate d) = TObject"
| "typeof (JRegExp r) = TObject"
| "typeof JFunction = TFunction"

text \<open>Comparison of numbers: every comparison with NaN is false.\<close>

fun num_eq :: "jsnumber \<Rightarrow> jsnumber \<Rightarrow> bool" where
  "num_eq NaN b = False"
| "num_eq a NaN = False"
| "num_eq a b = (a = b)"

fun num_lt :: "jsnumber \<Rightarrow> jsnumber \<Rightarrow> bool" where
  "num_lt NaN b = False"
| "num_lt a NaN = False"
| "num_lt NegInf b = (b \<noteq> NegInf)"
| "num_lt (Fin a) NegInf = False"
| "num_lt (Fin a) (Fin b) = (a < b)"
| "num_lt (Fin a) PosInf = True"
| "num_lt PosInf b = False"

text \<open>
  Strict equality \<^verbatim>\<open>===\<close>. Primitives compare by type and value. Two objects are
  equal only when they are the same object; the values of the model are separately
  built, so two object values are never identical.
\<close>

fun strict_equals :: "jsvalue \<Rightarrow> jsvalue \<Rightarrow> bool" where
  "strict_equals JUndefined JUndefined = True"
| "strict_equals JNull JNull = True"
| "strict_equals (JBool a) (JBool b) = (a = b)"
| "strict_equals (JNum a) (JNum b) = num_eq a b"
| "strict_equals (JStr a) (JStr b) = (a = b)"
| "strict_equals a b = False"

text \<open>\<^verbatim>\<open>s.includes(t)\<close>: \<open>t\<close> occurs in \<open>s\<close> as a contiguous run of characters.\<close>

fun str_includes :: "string \<Rightarrow> string \<Rightarrow> bool" where
  "str_includes [] t = (t = [])"
| "str_includes (c # cs) t = (prefix t (c # cs) \<or> str_includes cs t)"

text \<open>\<^verbatim>\<open>s.split('.')\<close>: the pieces between the dots; never an empty list.\<close>

fun split_on :: "char \<Rightarrow> string \<Rightarrow> string list" where
  "split_on d [] = [[]]"
| "split_on d (c # cs) =
     (if c = d then [] # split_on d cs
      else (case split_on d cs of
              [] \<Rightarrow> [[c]]
            | p # ps \<Rightarrow> (c # p) # ps))"

subsection \<open>Property access\<close>

datatype error =
    TypeError
  | InvalidPolicyFormat
  | InvalidRuleNotObject nat
  | InvalidRuleMissingIdOrName nat
  | AlreadyExists string
  | PolicyNotFound string

definition is_digit :: "char \<Rightarrow> bool" where
  "is_digit c = (c \<in> set ''0123456789'')"

definition digit_val :: "char \<Rightarrow> nat" where
  "digit_val c = of_char c - 48"

text \<open>
  An array index is a property name in canonical decimal form: digits only, and no
  leading zero unless the name is \<^verbatim>\<open>"0"\<close>.
\<close>

definition array_index :: "string \<Rightarrow> nat option" where
  "array_index k =
     (if k = [] then None
      else if hd k = CHR ''0'' \<and> 1 < length k then None
      else if list_all is_digit k then Some (foldl (\<lambda>n c. 10 * n + digit_val c) 0 k)
      else None)"

text \<open>
  \<^verbatim>\<open>value[part]\<close> on a value that is not \<^verbatim>\<open>undefined\<close> or \<^verbatim>\<open>null\<close>: the own
  property of that name, and \<^verbatim>\<open>undefined\<close> when there is none.
\<close>

fun own_property :: "jsvalue \<Rightarrow> string \<Rightarrow> jsvalue" where
  "own_property (JObj kvs) k = (case map_of kvs k of None \<Rightarrow> JUndefined | Some v \<Rightarrow> v)"
| "own_property (JArr xs) k =
     (if k = ''length'' then JNum (Fin (of_nat (length xs)))
      else (case array_index k of
              None \<Rightarrow> JUndefined
            | Some i \<Rightarrow> if i < length xs then xs ! i else JUndefined))"
| "own_property v k = JUndefined"

text \<open>
  \<^verbatim>\<open>value[part]\<close> on any value. Reading a property of \<^verbatim>\<open>undefined\<close> or \<^verbatim>\<open>null\<close>
  throws a TypeError.
\<close>

definition get_property :: "jsvalue \<Rightarrow> string \<Rightarrow> error + jsvalue" where
  "get_property v k =
     (if v = JUndefined \<or> v = JNull then Inl TypeError else Inr (own_property v k))"

section \<open>Types of the framework\<close>

datatype severity = critical | high | medium | low

datatype operator =
  equals | notEquals | contains | notContains | greaterThan | lessThan | matches

text \<open>
  \<^verbatim>\<open>RuleCondition.value\<close> is declared \<^verbatim>\<open>string | number | boolean | RegExp\<close>, but the
  parser stores whatever the raw document holds under \<^verbatim>\<open>value\<close> (an unchecked
  cast), so at run time it is any value.
\<close>

record RuleCondition =
  cond_field :: string
  cond_operator :: operator
  cond_value :: jsvalue

record ComplianceRule =
  rule_id :: string
  rule_name :: string
  rule_description :: string
  rule_severity :: severity
  rule_category :: string
  rule_enabled :: bool
  rule_conditions :: "RuleCondition list"

record CompliancePolicy =
  policy_id :: string
  policy_name :: string
  policy_version :: string
  policy_description :: string
  policy_rules :: "ComplianceRule list"
  createdAt :: jsdate
  updatedAt :: jsdate

record ValidationResult =
  ruleId :: string
  ruleName :: string
  passed :: bool
  severity :: severity
  message :: string

text \<open>
  The summary of a report. Its counters are numbers; the code fills them with lengths
  of arrays and compares them with 0, so they are integers here. The counter
  \<^verbatim>\<open>passed\<close> is \<open>passed_count\<close>, since \<open>passed\<close> is the field of a result.
\<close>

record Summary =
  total :: int
  passed_count :: int
  failed :: int
  criticalFailures :: int
  highFailures :: int
  mediumFailures :: int
  lowFailures :: int

record ComplianceReport =
  policyId :: string
  policyName :: string
  timestamp :: jsdate
  results :: "ValidationResult list"
  summary :: Summary

section \<open>RuleValidator\<close>

text \<open>
  The loop of \<^verbatim>\<open>getFieldValue\<close> over the parts of the path, with its two early
  returns. The property is read only behind the guards.
\<close>

fun walk :: "jsvalue \<Rightarrow> string list \<Rightarrow> error + jsvalue" where
  "walk v [] = Inr v"
| "walk v (part # parts) =
     (if v = JNull \<or> v = JUndefined then Inr JUndefined
      else if typeof v = TObject then
        (case get_property v part of
           Inl e \<Rightarrow> Inl e
         | Inr v' \<Rightarrow> walk v' parts)
      else Inr JUndefined)"

definition getFieldValue :: "jsvalue \<Rightarrow> string \<Rightarrow> error + jsvalue" where
  "getFieldValue data fld = walk data (split_on CHR ''.'' fld)"

text \<open>
  \<^verbatim>\<open>evaluateCondition\<close>. The first argument is the engine's \<^verbatim>\<open>RegExp.prototype.test\<close>,
  from the source text of a pattern and a string to the verdict.
\<close>

definition evaluateCondition ::
  "(string \<Rightarrow> string \<Rightarrow> bool) \<Rightarrow> RuleCondition \<Rightarrow> jsvalue \<Rightarrow> error + bool" where
  "evaluateCondition rtest c data =
     (case getFieldValue data (cond_field c) of
        Inl e \<Rightarrow> Inl e
      | Inr fieldValue \<Rightarrow>
          Inr (case cond_operator c of
                 equals \<Rightarrow> strict_equals fieldValue (cond_value c)
               | notEquals \<Rightarrow> \<not> strict_equals fieldValue (cond_value c)
               | contains \<Rightarrow>
                   (case (fieldValue, cond_value c) of
                      (JStr s, JStr t) \<Rightarrow> str_includes s t
                    | _ \<Rightarrow> False)
               | notContains \<Rightarrow>
                   (case (fieldValue, cond_value c) of
                      (JStr s, JStr t) \<Rightarrow> \<not> str_includes s t
                    | _ \<Rightarrow> True)
               | greaterThan \<Rightarrow>
                   (case (fieldValue, cond_value c) of
                      (JNum a, JNum b) \<Rightarrow> num_lt b a
                    | _ \<Rightarrow> False)
               | lessThan \<Rightarrow>
                   (case (fieldValue, cond_value c) of
                      (JNum a, JNum b) \<Rightarrow> num_lt a b
                    | _ \<Rightarrow> False)
               | matches \<Rightarrow>
                   (case (fieldValue, cond_value c) of
                      (JStr s, JRegExp r) \<Rightarrow> rtest r s
                    | _ \<Rightarrow> False)))"

text \<open>\<^verbatim>\<open>Array.prototype.every\<close>: stops at the first condition that does not hold.\<close>

fun every :: "('a \<Rightarrow> error + bool) \<Rightarrow> 'a list \<Rightarrow> error + bool" where
  "every f [] = Inr True"
| "every f (x # xs) =
     (case f x of
        Inl e \<Rightarrow> Inl e
      | Inr b \<Rightarrow> if b then every f xs else Inr False)"

definition validateRule ::
  "(string \<Rightarrow> string \<Rightarrow> bool) \<Rightarrow> ComplianceRule \<Rightarrow> jsvalue \<Rightarrow> error + ValidationResult" where
  "validateRule rtest rule data =
     (if \<not> rule_enabled rule then
        Inr \<lparr>ruleId = rule_id rule, ruleName = rule_name rule, passed = True,
             severity = rule_severity rule, message = ''Rule is disabled''\<rparr>
      else
        (case every (\<lambda>c. evaluateCondition rtest c data) (rule_conditions rule) of
           Inl e \<Rightarrow> Inl e
         | Inr allConditionsPassed \<Rightarrow>
             Inr \<lparr>ruleId = rule_id rule, ruleName = rule_name rule,
                  passed = allConditionsPassed, severity = rule_severity rule,
                  message =
                    (if allConditionsPassed
                     then ''Rule \"'' @ rule_name rule @ ''\" passed''
                     else ''Rule \"'' @ rule_name rule @ ''\" failed: ''
                          @ rule_description rule)\<rparr>))"

section \<open>PolicyValidator\<close>

text \<open>\<^verbatim>\<open>Array.prototype.map\<close> with a callback that may throw.\<close>

fun map_err :: "('a \<Rightarrow> error + 'b) \<Rightarrow> 'a list \<Rightarrow> error + 'b list" where
  "map_err f [] = Inr []"
| "map_err f (x # xs) =
     (case f x of
        Inl e \<Rightarrow> Inl e
      | Inr y \<Rightarrow> (case map_err f xs of Inl e \<Rightarrow> Inl e | Inr ys \<Rightarrow> Inr (y # ys)))"

definition calculateSummary :: "ValidationResult list \<Rightarrow> Summary" where
  "calculateSummary rs =
     (let failedRs = filter (\<lambda>r. \<not> passed r) rs in
      \<lparr>total = int (length rs),
       passed_count = int (length (filter (\<lambda>r. passed r) rs)),
       failed = int (length failedRs),
       criticalFailures = int (length (filter (\<lambda>r. severity r = critical) failedRs)),
       highFailures = int (length (filter (\<lambda>r. severity r = high) failedRs)),
       mediumFailures = int (length (filter (\<lambda>r. severity r = medium) failedRs)),
       lowFailures = int (length (filter (\<lambda>r. severity r = low) failedRs))\<rparr>)"

text \<open>The third argument is the reading of the clock taken by \<^verbatim>\<open>new Date()\<close>.\<close>

definition validatePolicy ::
  "(string \<Rightarrow> string \<Rightarrow> bool) \<Rightarrow> jsdate \<Rightarrow> CompliancePolicy \<Rightarrow> jsvalue
     \<Rightarrow> error + ComplianceReport" where
  "validatePolicy rtest now policy data =
     (case map_err (\<lambda>rule. validateRule rtest rule data) (policy_rules policy) of
        Inl e \<Rightarrow> Inl e
      | Inr rs \<Rightarrow>
          Inr \<lparr>policyId = policy_id policy, policyName = policy_name policy,
               timestamp = now, results = rs, summary = calculateSummary rs\<rparr>)"

definition isPolicyPassing :: "ComplianceReport \<Rightarrow> bool" where
  "isPolicyPassing report =
     (criticalFailures (summary report) = 0 \<and> highFailures (summary report) = 0)"

section \<open>AuditLogger\<close>

datatype action = Validate | Create | Update | Delete

datatype resourceType = Policy | Rule | Report

record AuditLogEntry =
  entry_id :: string
  entry_timestamp :: jsdate
  action :: action
  resourceType :: resourceType
  resourceId :: string
  userId :: string
  details :: "(string \<times> jsvalue) list"

record AuditLogger =
  logs :: "AuditLogEntry list"
  maxLogSize :: jsnumber

definition new_AuditLogger :: "jsnumber \<Rightarrow> AuditLogger" where
  "new_AuditLogger m = \<lparr>logs = [], maxLogSize = m\<rparr>"

text \<open>The constructor's default argument.\<close>

definition default_AuditLogger :: AuditLogger where
  "default_AuditLogger = new_AuditLogger (Fin 10000)"

text \<open>Unary minus on numbers.\<close>

fun num_neg :: "jsnumber \<Rightarrow> jsnumber" where
  "num_neg NaN = NaN"
| "num_neg NegInf = PosInf"
| "num_neg (Fin q) = Fin (- q)"
| "num_neg PosInf = NegInf"

text \<open>Truncation of a finite number towards zero, as \<^verbatim>\<open>ToIntegerOrInfinity\<close> does.\<close>

definition trunc :: "rat \<Rightarrow> int" where
  "trunc q = (if 0 \<le> q then \<lfloor>q\<rfloor> else \<lceil>q\<rceil>)"

text \<open>
  \<^verbatim>\<open>xs.slice(start)\<close>. The start is converted by \<^verbatim>\<open>ToIntegerOrInfinity\<close> (NaN becomes
  0); a negative start counts from the end and is clamped at 0, a start that is not
  negative is clamped at the length. In particular \<^verbatim>\<open>slice(-0)\<close> is \<^verbatim>\<open>slice(0)\<close>, the
  whole array.
\<close>

fun slice_from :: "jsnumber \<Rightarrow> 'a list \<Rightarrow> 'a list" where
  "slice_from NaN xs = xs"
| "slice_from NegInf xs = xs"
| "slice_from PosInf xs = []"
| "slice_from (Fin q) xs =
     (let relativeStart = trunc q;
          len = int (length xs);
          k = (if relativeStart < 0 then max (len + relativeStart) 0
               else min relativeStart len)
      in drop (nat k) xs)"

definition trimLogs :: "AuditLogger \<Rightarrow> AuditLogger" where
  "trimLogs L =
     (if num_lt (maxLogSize L) (Fin (of_nat (length (logs L))))
      then L\<lparr>logs := slice_from (num_neg (maxLogSize L)) (logs L)\<rparr>
      else L)"

text \<open>
  \<^verbatim>\<open>log\<close>. The first two arguments are what the call takes from its environment: the
  identifier that \<^verbatim>\<open>generateId\<close> returns and the reading of the clock.
\<close>

definition log_action ::
  "string \<Rightarrow> jsdate \<Rightarrow> action \<Rightarrow> resourceType \<Rightarrow> string \<Rightarrow> string
     \<Rightarrow> (string \<times> jsvalue) list \<Rightarrow> AuditLogger \<Rightarrow> AuditLogEntry \<times> AuditLogger" where
  "log_action gid now act rtype rid uid det L =
     (let entry = \<lparr>entry_id = gid, entry_timestamp = now, action = act,
                    resourceType = rtype, resourceId = rid, userId = uid,
                    details = det\<rparr>
      in (entry, trimLogs (L\<lparr>logs := logs L @ [entry]\<rparr>)))"

text \<open>
  A sequence of calls of \<^verbatim>\<open>log\<close>, each given by the entry it builds (its arguments,
  the generated identifier and the clock reading).
\<close>

definition log_call :: "AuditLogEntry \<Rightarrow> AuditLogger \<Rightarrow> AuditLogger" where
  "log_call e L =
     snd (log_action (entry_id e) (entry_timestamp e) (action e) (resourceType e)
            (resourceId e) (userId e) (details e) L)"

fun log_calls :: "AuditLogEntry list \<Rightarrow> AuditLogger \<Rightarrow> AuditLogger" where
  "log_calls [] L = L"
| "log_calls (e # es) L = log_calls es (log_call e L)"

section \<open>PolicyParser\<close>

text \<open>
  What the parser takes from the engine: \<^verbatim>\<open>String(v)\<close> for a value that is not a
  string, and \<^verbatim>\<open>new Date(s)\<close> for a string (the formats accepted depend on the
  engine).
\<close>

record engine =
  js_String :: "jsvalue \<Rightarrow> string"
  js_Date_parse :: "string \<Rightarrow> jsdate"

definition String_of :: "engine \<Rightarrow> jsvalue \<Rightarrow> string" where
  "String_of en v = (case v of JStr s \<Rightarrow> s | _ \<Rightarrow> js_String en v)"

text \<open>The operator \<^verbatim>\<open>??\<close>.\<close>

definition nullish_or :: "jsvalue \<Rightarrow> jsvalue \<Rightarrow> jsvalue" where
  "nullish_or v d = (if v = JUndefined \<or> v = JNull then d else v)"

text \<open>\<^verbatim>\<open>new Date(n)\<close> for a number: out of range or not finite gives an invalid date.\<close>

fun date_of_number :: "jsnumber \<Rightarrow> jsdate" where
  "date_of_number (Fin q) =
     (if \<bar>q\<bar> \<le> 8640000000000000 then Date (trunc q) else InvalidDate)"
| "date_of_number n = InvalidDate"

text \<open>\<^verbatim>\<open>isNaN(date.getTime()) ? null : date\<close>\<close>

fun valid_date :: "jsdate \<Rightarrow> jsdate option" where
  "valid_date InvalidDate = None"
| "valid_date (Date t) = Some (Date t)"

fun parseDate :: "engine \<Rightarrow> jsvalue \<Rightarrow> jsdate option" where
  "parseDate en (JDate d) = Some d"
| "parseDate en (JStr s) = valid_date (js_Date_parse en s)"
| "parseDate en (JNum n) = valid_date (date_of_number n)"
| "parseDate en v = None"

definition parseCondition :: "engine \<Rightarrow> jsvalue \<Rightarrow> RuleCondition" where
  "parseCondition en input =
     \<lparr>cond_field = String_of en (nullish_or (own_property input ''field'') (JStr '''')),
      cond_operator =
        (case own_property input ''operator'' of
           JStr s \<Rightarrow>
             (if s = ''equals'' then equals
              else if s = ''notEquals'' then notEquals
              else if s = ''contains'' then contains
              else if s = ''notContains'' then notContains
              else if s = ''greaterThan'' then greaterThan
              else if s = ''lessThan'' then lessThan
              else if s = ''matches'' then matches
              else equals)
         | _ \<Rightarrow> equals),
      cond_value = own_property input ''value''\<rparr>"

definition parseConditions :: "engine \<Rightarrow> jsvalue \<Rightarrow> RuleCondition list" where
  "parseConditions en input =
     (case input of
        JArr items \<Rightarrow>
          map (parseCondition en)
            (filter (\<lambda>item. typeof item = TObject \<and> item \<noteq> JNull) items)
      | _ \<Rightarrow> [])"

definition parseSeverity :: "jsvalue \<Rightarrow> severity" where
  "parseSeverity input =
     (case input of
        JStr s \<Rightarrow>
          (if s = ''critical'' then critical
           else if s = ''high'' then high
           else if s = ''medium'' then medium
           else if s = ''low'' then low
           else medium)
      | _ \<Rightarrow> medium)"

definition parseRule :: "engine \<Rightarrow> jsvalue \<Rightarrow> nat \<Rightarrow> error + ComplianceRule" where
  "parseRule en input index =
     (if typeof input \<noteq> TObject \<or> input = JNull then Inl (InvalidRuleNotObject index)
      else
        (case (own_property input ''id'', own_property input ''name'') of
           (JStr rid, JStr rname) \<Rightarrow>
             Inr \<lparr>rule_id = rid, rule_name = rname,
                  rule_description =
                    String_of en (nullish_or (own_property input ''description'') (JStr '''')),
                  rule_severity = parseSeverity (own_property input ''severity''),
                  rule_category =
                    String_of en (nullish_or (own_property input ''category'') (JStr ''general'')),
                  rule_enabled = (own_property input ''enabled'' \<noteq> JBool False),
                  rule_conditions = parseConditions en (own_property input ''conditions'')\<rparr>
         | _ \<Rightarrow> Inl (InvalidRuleMissingIdOrName index)))"

text \<open>\<^verbatim>\<open>input.map((item, index) => this.parseRule(item, index))\<close>, from a given index on.\<close>

fun parseRules_from :: "engine \<Rightarrow> nat \<Rightarrow> jsvalue list \<Rightarrow> error + ComplianceRule list" where
  "parseRules_from en index [] = Inr []"
| "parseRules_from en index (item # items) =
     (case parseRule en item index of
        Inl e \<Rightarrow> Inl e
      | Inr r \<Rightarrow>
          (case parseRules_from en (Suc index) items of
             Inl e \<Rightarrow> Inl e
           | Inr rs \<Rightarrow> Inr (r # rs)))"

definition parseRules :: "engine \<Rightarrow> jsvalue \<Rightarrow> error + ComplianceRule list" where
  "parseRules en input =
     (case input of JArr items \<Rightarrow> parseRules_from en 0 items | _ \<Rightarrow> Inr [])"

definition isValidPolicyInput :: "jsvalue \<Rightarrow> bool" where
  "isValidPolicyInput input =
     (if typeof input \<noteq> TObject \<or> input = JNull then False
      else typeof (own_property input ''id'') = TString
         \<and> typeof (own_property input ''name'') = TString
         \<and> (case own_property input ''rules'' of JArr xs \<Rightarrow> True | _ \<Rightarrow> False))"

text \<open>
  \<^verbatim>\<open>parsePolicy\<close>. The two dates are the readings of the clock that the two
  \<^verbatim>\<open>new Date()\<close> defaults take.
\<close>

definition parsePolicy ::
  "engine \<Rightarrow> jsdate \<Rightarrow> jsdate \<Rightarrow> jsvalue \<Rightarrow> error + CompliancePolicy" where
  "parsePolicy en nowCreated nowUpdated input =
     (if \<not> isValidPolicyInput input then Inl InvalidPolicyFormat
      else
        (case parseRules en (own_property input ''rules'') of
           Inl e \<Rightarrow> Inl e
         | Inr rs \<Rightarrow>
             Inr \<lparr>policy_id = String_of en (own_property input ''id''),
                  policy_name = String_of en (own_property input ''name''),
                  policy_version =
                    String_of en (nullish_or (own_property input ''version'') (JStr ''1.0.0'')),
                  policy_description =
                    String_of en (nullish_or (own_property input ''description'') (JStr '''')),
                  policy_rules = rs,
                  createdAt =
                    (case parseDate en (own_property input ''createdAt'') of
                       Some d \<Rightarrow> d | None \<Rightarrow> nowCreated),
                  updatedAt =
                    (case parseDate en (own_property input ''updatedAt'') of
                       Some d \<Rightarrow> d | None \<Rightarrow> nowUpdated)\<rparr>))"

section \<open>ComplianceService\<close>

text \<open>
  The policies are a \<^verbatim>\<open>Map\<close>, which keeps its keys in insertion order: an association
  list with distinct keys. \<^verbatim>\<open>set\<close> on a present key keeps its place, on a new key
  appends.
\<close>

record ComplianceService =
  policies :: "(string \<times> CompliancePolicy) list"
  auditLogger :: AuditLogger

definition new_ComplianceService :: "AuditLogger \<Rightarrow> ComplianceService" where
  "new_ComplianceService L = \<lparr>policies = [], auditLogger = L\<rparr>"

definition has :: "(string \<times> CompliancePolicy) list \<Rightarrow> string \<Rightarrow> bool" where
  "has m k = (map_of m k \<noteq> None)"

definition getPolicy :: "ComplianceService \<Rightarrow> string \<Rightarrow> CompliancePolicy option" where
  "getPolicy S pid = map_of (policies S) pid"

text \<open>
  What one call of the service takes from its environment, in the order it is read:
  the clock at the parser's two defaults, the clock at \<^verbatim>\<open>policy.updatedAt = new Date()\<close>,
  and the generated identifier and the clock in \<^verbatim>\<open>log\<close>.
\<close>

record readings =
  r_created :: jsdate
  r_updated :: jsdate
  r_now :: jsdate
  r_entry_id :: string
  r_entry_time :: jsdate

definition policy_details :: "CompliancePolicy \<Rightarrow> (string \<times> jsvalue) list" where
  "policy_details p =
     [(''policyName'', JStr (policy_name p)),
      (''ruleCount'', JNum (Fin (of_nat (length (policy_rules p)))))]"

text \<open>
  Each operation returns its result, an error when it throws, together with the state
  of the service after the call.
\<close>

definition registerPolicy ::
  "engine \<Rightarrow> readings \<Rightarrow> jsvalue \<Rightarrow> string \<Rightarrow> ComplianceService
     \<Rightarrow> (error + CompliancePolicy) \<times> ComplianceService" where
  "registerPolicy en rd policyInput uid S =
     (case parsePolicy en (r_created rd) (r_updated rd) policyInput of
        Inl e \<Rightarrow> (Inl e, S)
      | Inr policy \<Rightarrow>
          if has (policies S) (policy_id policy)
          then (Inl (AlreadyExists (policy_id policy)), S)
          else
            (let ps = AList.update (policy_id policy) policy (policies S);
                 lg = snd (log_action (r_entry_id rd) (r_entry_time rd) Create Policy
                             (policy_id policy) uid (policy_details policy) (auditLogger S))
             in (Inr policy, \<lparr>policies = ps, auditLogger = lg\<rparr>)))"

definition updatePolicy ::
  "engine \<Rightarrow> readings \<Rightarrow> string \<Rightarrow> jsvalue \<Rightarrow> string \<Rightarrow> ComplianceService
     \<Rightarrow> (error + CompliancePolicy) \<times> ComplianceService" where
  "updatePolicy en rd pid policyInput uid S =
     (if \<not> has (policies S) pid then (Inl (PolicyNotFound pid), S)
      else
        (case parsePolicy en (r_created rd) (r_updated rd) policyInput of
           Inl e \<Rightarrow> (Inl e, S)
         | Inr parsed \<Rightarrow>
             (let policy = parsed\<lparr>policy_id := pid, updatedAt := r_now rd\<rparr>;
                  ps = AList.update pid policy (policies S);
                  lg = snd (log_action (r_entry_id rd) (r_entry_time rd) Update Policy
                              pid uid (policy_details policy) (auditLogger S))
              in (Inr policy, \<lparr>policies = ps, auditLogger = lg\<rparr>))))"

definition deletePolicy ::
  "readings \<Rightarrow> string \<Rightarrow> string \<Rightarrow> ComplianceService \<Rightarrow> bool \<times> ComplianceService" where
  "deletePolicy rd pid uid S =
     (if \<not> has (policies S) pid then (False, S)
      else
        (let ps = AList.delete pid (policies S);
             lg = snd (log_action (r_entry_id rd) (r_entry_time rd) Delete Policy
                         pid uid [] (auditLogger S))
         in (True, \<lparr>policies = ps, auditLogger = lg\<rparr>)))"

text \<open>Comparison of two dates by \<^verbatim>\<open>getTime()\<close>; an invalid date compares false.\<close>

fun date_le :: "jsdate \<Rightarrow> jsdate \<Rightarrow> bool" where
  "date_le (Date a) (Date b) = (a \<le> b)"
| "date_le a b = False"

section \<open>Example inputs\<close>

text \<open>
  Concrete values for the closed theorems below. The example engine is never consulted
  on them: the example documents hold strings where \<^verbatim>\<open>String\<close> is applied and numbers
  where dates are parsed.
\<close>

definition ex_engine :: engine where
  "ex_engine = \<lparr>js_String = (\<lambda>v. ''''), js_Date_parse = (\<lambda>s. InvalidDate)\<rparr>"

definition ex_input :: jsvalue where
  "ex_input = JObj [(''id'', JStr ''p1''), (''name'', JStr ''Security''), (''rules'', JArr [])]"

definition ex_input_renamed :: jsvalue where
  "ex_input_renamed =
     JObj [(''id'', JStr ''other''), (''name'', JStr ''Security v2''), (''rules'', JArr [])]"

definition ex_input_dated :: jsvalue where
  "ex_input_dated =
     JObj [(''id'', JStr ''p1''), (''name'', JStr ''Security''), (''rules'', JArr []),
           (''createdAt'', JNum (Fin 1000)), (''updatedAt'', JNum (Fin 5000))]"

definition ex_readings :: "int \<Rightarrow> readings" where
  "ex_readings t = \<lparr>r_created = Date t, r_updated = Date t, r_now = Date t,
                    r_entry_id = ''audit_1'', r_entry_time = Date t\<rparr>"

definition ex_registered :: ComplianceService where
  "ex_registered =
     snd (registerPolicy ex_engine (ex_readings 1000) ex_input ''user-1''
            (new_ComplianceService default_AuditLogger))"

definition ex_registered_dated :: ComplianceService where
  "ex_registered_dated =
     snd (registerPolicy ex_engine (ex_readings 2000) ex_input_dated ''user-1''
            (new_ComplianceService default_AuditLogger))"

definition ex_record :: jsvalue where
  "ex_record = JObj [(''user'', JObj [])]"

definition ex_profile :: jsvalue where
  "ex_profile = JObj [(''name'', JStr ''alice@example.com''), (''age'', JNum (Fin 30))]"

definition ex_rule_disabled :: ComplianceRule where
  "ex_rule_disabled =
     \<lparr>rule_id = ''r1'', rule_name = ''Status active'', rule_description = ''status must be active'',
      rule_severity = critical, rule_category = ''general'', rule_enabled = False,
      rule_conditions =
        [\<lparr>cond_field = ''status'', cond_operator = equals, cond_value = JStr ''active''\<rparr>]\<rparr>"

section \<open>Properties of the evaluator\<close>

subsection \<open>Strings and paths\<close>

lemma str_includes_iff: "str_includes s t \<longleftrightarrow> (\<exists>p q. s = p @ t @ q)"
proof (induction s)
  case Nil
  then show ?case by auto
next
  case (Cons c cs)
  have "sublist t (c # cs) \<longleftrightarrow> prefix t (c # cs) \<or> sublist t cs"
    by (rule sublist_Cons_right)
  with Cons show ?case
    by (simp add: sublist_def)
qed

lemma split_on_nonempty: "split_on d s \<noteq> []"
  by (induction s) (auto split: list.splits)

lemma split_on_append: "split_on d (f @ d # g) = split_on d f @ split_on d g"
proof (induction f)
  case Nil
  show ?case by simp
next
  case (Cons c cs)
  obtain p ps where "split_on d cs = p # ps"
    using split_on_nonempty [of d cs] by (cases "split_on d cs") auto
  with Cons show ?case by simp
qed

subsection \<open>Field extraction never throws\<close>

lemma get_property_object:
  "v \<noteq> JNull \<Longrightarrow> v \<noteq> JUndefined \<Longrightarrow> \<exists>w. get_property v k = Inr w"
  by (simp add: get_property_def)

lemma walk_total: "\<exists>w. walk v ps = Inr w"
proof (induction ps arbitrary: v)
  case Nil
  show ?case by simp
next
  case (Cons part parts)
  show ?case
  proof (cases "v = JNull \<or> v = JUndefined \<or> typeof v \<noteq> TObject")
    case True
    then show ?thesis by auto
  next
    case False
    then obtain w where "get_property v part = Inr w"
      using get_property_object [of v part] by auto
    with False Cons [of w] show ?thesis by simp
  qed
qed

lemma walk_absent:
  "v = JNull \<or> v = JUndefined \<or> typeof v \<noteq> TObject \<Longrightarrow> walk v (p # ps) = Inr JUndefined"
  by auto

lemma walk_append:
  "walk v (ps @ qs) = (case walk v ps of Inl e \<Rightarrow> Inl e | Inr w \<Rightarrow> walk w qs)"
proof (induction ps arbitrary: v)
  case Nil
  show ?case by simp
next
  case (Cons part parts)
  have u: "walk JUndefined qs = Inr JUndefined" by (cases qs) simp_all
  show ?case
    by (simp add: Cons u split: sum.splits)
qed

lemma getFieldValue_total: "\<exists>w. getFieldValue data f = Inr w"
  unfolding getFieldValue_def by (rule walk_total)

lemma getFieldValue_append:
  "getFieldValue data (f @ CHR ''.'' # g) =
     (case getFieldValue data f of Inl e \<Rightarrow> Inl e | Inr v \<Rightarrow> walk v (split_on CHR ''.'' g))"
  by (simp add: getFieldValue_def split_on_append walk_append)

lemma evaluateCondition_total: "\<exists>b. evaluateCondition rtest c data = Inr b"
proof -
  obtain w where "getFieldValue data (cond_field c) = Inr w"
    using getFieldValue_total by blast
  then show ?thesis by (auto simp: evaluateCondition_def)
qed

lemma every_total: "(\<And>x. \<exists>b. f x = Inr b) \<Longrightarrow> \<exists>b. every f xs = Inr b"
proof (induction xs)
  case Nil
  show ?case by (rule exI [of _ True]) simp
next
  case (Cons x xs)
  obtain b where fx: "f x = Inr b" using Cons.prems by blast
  obtain b' where "every f xs = Inr b'" using Cons by blast
  with fx show ?case by (cases b) auto
qed

lemma validateRule_total: "\<exists>r. validateRule rtest rule data = Inr r"
proof -
  obtain b where "every (\<lambda>c. evaluateCondition rtest c data) (rule_conditions rule) = Inr b"
    using every_total [of "\<lambda>c. evaluateCondition rtest c data"] evaluateCondition_total
    by blast
  then show ?thesis by (simp add: validateRule_def)
qed

lemma map_err_total:
  "(\<And>x. \<exists>y. f x = Inr y) \<Longrightarrow> \<exists>ys. map_err f xs = Inr ys \<and> length ys = length xs"
proof (induction xs)
  case Nil
  show ?case by simp
next
  case (Cons x xs)
  obtain y where "f x = Inr y" using Cons.prems by blast
  moreover obtain ys where "map_err f xs = Inr ys" "length ys = length xs"
    using Cons by blast
  ultimately show ?case by simp
qed

lemma strict_equals_undefined: "v \<noteq> JUndefined \<Longrightarrow> \<not> strict_equals JUndefined v"
  by (cases v) simp_all

lemma getFieldValue_ex_record:
  "getFieldValue ex_record ''user.profile.role'' = Inr JUndefined"
  by (simp add: getFieldValue_def ex_record_def get_property_def)

lemma ex_profile_fields:
  "getFieldValue ex_profile ''age'' = Inr (JNum (Fin 30))"
  "getFieldValue ex_profile ''name'' = Inr (JStr ''alice@example.com'')"
  by (simp_all add: getFieldValue_def ex_profile_def get_property_def)

text \<open>
  Claim C8. Condition evaluation is total and never raises: for every record, path
  and condition, \<^verbatim>\<open>getFieldValue\<close> and \<^verbatim>\<open>evaluateCondition\<close> return a value (the
  TypeError of reading a property of \<^verbatim>\<open>null\<close> or \<^verbatim>\<open>undefined\<close> is never reached).
  When the walk along a path has arrived at \<^verbatim>\<open>null\<close>, at an absent value or at a value
  that is not an object, every longer path yields the absent sentinel
  \<^verbatim>\<open>undefined\<close>. In particular \<^verbatim>\<open>equals\<close> on the field \<^verbatim>\<open>user.profile.role\<close> of the
  record \<^verbatim>\<open>{user: {}}\<close> is false for every operand that is a value (anything but
  \<^verbatim>\<open>undefined\<close>).
\<close>

theorem evaluation_total:
  "(\<exists>v. getFieldValue data f = Inr v)
   \<and> (\<exists>b. evaluateCondition rtest c data = Inr b)
   \<and> (\<forall>v. getFieldValue data f = Inr v
            \<and> (v = JNull \<or> v = JUndefined \<or> typeof v \<noteq> TObject)
          \<longrightarrow> getFieldValue data (f @ ''.'' @ g) = Inr JUndefined)
   \<and> (operand \<noteq> JUndefined \<longrightarrow>
         evaluateCondition rtest
           \<lparr>cond_field = ''user.profile.role'', cond_operator = equals, cond_value = operand\<rparr>
           (JObj [(''user'', JObj [])]) = Inr False)"
proof -
  have "getFieldValue data (f @ ''.'' @ g) = Inr JUndefined"
    if "getFieldValue data f = Inr v"
      and "v = JNull \<or> v = JUndefined \<or> typeof v \<noteq> TObject" for v
  proof -
    obtain p ps where "split_on CHR ''.'' g = p # ps"
      using split_on_nonempty [of "CHR ''.''" g] by (cases "split_on CHR ''.'' g") auto
    then have "getFieldValue data (f @ CHR ''.'' # g) = walk v (p # ps)"
      using that(1) by (simp only: getFieldValue_append sum.case)
    also have "\<dots> = Inr JUndefined"
      using that(2) by (rule walk_absent)
    finally show ?thesis by simp
  qed
  moreover have "evaluateCondition rtest
           \<lparr>cond_field = ''user.profile.role'', cond_operator = equals, cond_value = operand\<rparr>
           (JObj [(''user'', JObj [])]) = Inr False"
    if "operand \<noteq> JUndefined"
    using that getFieldValue_ex_record strict_equals_undefined [of operand]
    by (simp add: evaluateCondition_def ex_record_def)
  ultimately show ?thesis
    using getFieldValue_total evaluateCondition_total by blast
qed

theorem evaluation_total_witness:
  "getFieldValue ex_record ''user'' = Inr (JObj [])
   \<and> getFieldValue ex_record ''user.profile'' = Inr JUndefined
   \<and> getFieldValue ex_record ''user.profile.role'' = Inr JUndefined
   \<and> evaluateCondition (\<lambda>r s. False)
        \<lparr>cond_field = ''user.profile.role'', cond_operator = equals,
         cond_value = JStr ''admin''\<rparr> (JObj [(''user'', JObj [])]) = Inr False"
proof -
  have a: "getFieldValue ex_record ''user.profile'' = Inr JUndefined"
    by (simp add: getFieldValue_def ex_record_def get_property_def)
  have b: "getFieldValue ex_record ''user'' = Inr (JObj [])"
    by (simp add: getFieldValue_def ex_record_def get_property_def)
  from evaluation_total [of ex_record "''user.profile''" "\<lambda>r s. False" undefined "''role''"
      "JStr ''admin''"] a b
  show ?thesis by simp
qed

text \<open>
  Claim C5. Operator \<^verbatim>\<open>notContains\<close>: when the extracted field value or the operand
  is not a string the evaluator returns true, where \<^verbatim>\<open>contains\<close> returns false on the
  same condition and record; when both are strings \<^verbatim>\<open>notContains\<close> returns the
  negation of the substring test.
\<close>

theorem notContains_asymmetry:
  "\<exists>fv. getFieldValue data (cond_field c) = Inr fv
     \<and> ((\<nexists>s. fv = JStr s) \<or> (\<nexists>t. cond_value c = JStr t) \<longrightarrow>
           evaluateCondition rtest (c\<lparr>cond_operator := notContains\<rparr>) data = Inr True
         \<and> evaluateCondition rtest (c\<lparr>cond_operator := contains\<rparr>) data = Inr False)
     \<and> (\<forall>s t. fv = JStr s \<and> cond_value c = JStr t \<longrightarrow>
           evaluateCondition rtest (c\<lparr>cond_operator := notContains\<rparr>) data
             = Inr (\<not> (\<exists>p q. s = p @ t @ q)))"
proof -
  obtain fv where fv: "getFieldValue data (cond_field c) = Inr fv"
    using getFieldValue_total by blast
  have "evaluateCondition rtest (c\<lparr>cond_operator := notContains\<rparr>) data = Inr True
      \<and> evaluateCondition rtest (c\<lparr>cond_operator := contains\<rparr>) data = Inr False"
    if "(\<nexists>s. fv = JStr s) \<or> (\<nexists>t. cond_value c = JStr t)"
    using that fv
    by (cases fv; cases "cond_value c") (simp_all add: evaluateCondition_def)
  moreover have "evaluateCondition rtest (c\<lparr>cond_operator := notContains\<rparr>) data
             = Inr (\<not> (\<exists>p q. s = p @ t @ q))"
    if "fv = JStr s \<and> cond_value c = JStr t" for s t
    using that fv by (simp add: evaluateCondition_def str_includes_iff)
  ultimately show ?thesis using fv by blast
qed

theorem notContains_asymmetry_witness:
  "evaluateCondition (\<lambda>r s. False)
     \<lparr>cond_field = ''age'', cond_operator = notContains, cond_value = JStr ''3''\<rparr>
     ex_profile = Inr True
   \<and> evaluateCondition (\<lambda>r s. False)
     \<lparr>cond_field = ''age'', cond_operator = contains, cond_value = JStr ''3''\<rparr>
     ex_profile = Inr False
   \<and> evaluateCondition (\<lambda>r s. False)
     \<lparr>cond_field = ''name'', cond_operator = notContains, cond_value = JNum (Fin 3)\<rparr>
     ex_profile = Inr True
   \<and> evaluateCondition (\<lambda>r s. False)
     \<lparr>cond_field = ''name'', cond_operator = notContains, cond_value = JStr ''@''\<rparr>
     ex_profile = Inr False"
proof -
  have e: "\<exists>p q. ''alice@example.com'' = p @ ''@'' @ q"
    by (rule exI [of _ "''alice''"], rule exI [of _ "''example.com''"]) simp
  from
    notContains_asymmetry [of ex_profile
      "\<lparr>cond_field = ''age'', cond_operator = equals, cond_value = JStr ''3''\<rparr>" "\<lambda>r s. False"]
    notContains_asymmetry [of ex_profile
      "\<lparr>cond_field = ''name'', cond_operator = equals, cond_value = JNum (Fin 3)\<rparr>" "\<lambda>r s. False"]
    notContains_asymmetry [of ex_profile
      "\<lparr>cond_field = ''name'', cond_operator = equals, cond_value = JStr ''@''\<rparr>" "\<lambda>r s. False"]
    e
  show ?thesis by (simp add: ex_profile_fields)
qed

text \<open>
  Claim C6. A rule with \<^verbatim>\<open>enabled == false\<close> yields \<^verbatim>\<open>passed = true\<close> with the
  message \<^verbatim>\<open>Rule is disabled\<close> on every record, and the result does not depend on
  the rule's conditions, on the record or on the pattern matcher: no condition is
  evaluated.
\<close>

theorem validateRule_disabled:
  "\<not> rule_enabled rule \<Longrightarrow>
     validateRule rtest rule data =
       Inr \<lparr>ruleId = rule_id rule, ruleName = rule_name rule, passed = True,
            severity = rule_severity rule, message = ''Rule is disabled''\<rparr>
     \<and> validateRule rtest' (rule\<lparr>rule_conditions := cs\<rparr>) data' = validateRule rtest rule data"
  by (simp add: validateRule_def)

theorem validateRule_disabled_witness:
  "\<not> rule_enabled ex_rule_disabled
   \<and> evaluateCondition (\<lambda>r s. False) (hd (rule_conditions ex_rule_disabled)) ex_record = Inr False
   \<and> validateRule (\<lambda>r s. False) ex_rule_disabled ex_record =
       Inr \<lparr>ruleId = ''r1'', ruleName = ''Status active'', passed = True,
            severity = critical, message = ''Rule is disabled''\<rparr>"
proof -
  have d: "\<not> rule_enabled ex_rule_disabled" by (simp add: ex_rule_disabled_def)
  have "evaluateCondition (\<lambda>r s. False) (hd (rule_conditions ex_rule_disabled)) ex_record = Inr False"
    by (simp add: ex_rule_disabled_def ex_record_def evaluateCondition_def getFieldValue_def
        get_property_def)
  with d validateRule_disabled [OF d, of "\<lambda>r s. False" ex_record "\<lambda>r s. False" "[]" ex_record]
  show ?thesis by (simp add: ex_rule_disabled_def)
qed

section \<open>Properties of the aggregator\<close>

lemma severity_partition:
  "length (filter (\<lambda>r. severity r = critical) fs) + length (filter (\<lambda>r. severity r = high) fs)
   + length (filter (\<lambda>r. severity r = medium) fs) + length (filter (\<lambda>r. severity r = low) fs)
   = length fs"
proof (induction fs)
  case Nil
  show ?case by simp
next
  case (Cons r rs)
  then show ?case by (cases "severity r") simp_all
qed

lemma calculateSummary_failed:
  "failed (calculateSummary rs) = total (calculateSummary rs) - passed_count (calculateSummary rs)"
  using sum_length_filter_compl [of "\<lambda>r. passed r" rs]
  by (simp add: calculateSummary_def Let_def)

lemma calculateSummary_severities:
  "criticalFailures (calculateSummary rs) + highFailures (calculateSummary rs)
   + mediumFailures (calculateSummary rs) + lowFailures (calculateSummary rs)
   = failed (calculateSummary rs)"
  using severity_partition [of "filter (\<lambda>r. \<not> passed r) rs"]
  by (simp add: calculateSummary_def Let_def)

text \<open>
  Claim C3. For every policy and record \<^verbatim>\<open>validatePolicy\<close> returns a report whose
  summary satisfies \<^verbatim>\<open>failed = total - passed\<close>, whose four severity counters add up
  to \<^verbatim>\<open>failed\<close>, and where each counter is the number of failed results of that
  severity.
\<close>

theorem validatePolicy_summary:
  "\<exists>report. validatePolicy rtest now policy data = Inr report
     \<and> failed (summary report) = total (summary report) - passed_count (summary report)
     \<and> criticalFailures (summary report) + highFailures (summary report)
         + mediumFailures (summary report) + lowFailures (summary report)
         = failed (summary report)
     \<and> criticalFailures (summary report)
         = int (length (filter (\<lambda>r. \<not> passed r \<and> severity r = critical) (results report)))
     \<and> highFailures (summary report)
         = int (length (filter (\<lambda>r. \<not> passed r \<and> severity r = high) (results report)))
     \<and> mediumFailures (summary report)
         = int (length (filter (\<lambda>r. \<not> passed r \<and> severity r = medium) (results report)))
     \<and> lowFailures (summary report)
         = int (length (filter (\<lambda>r. \<not> passed r \<and> severity r = low) (results report)))"
proof -
  obtain rs where
    rs: "map_err (\<lambda>rule. validateRule rtest rule data) (policy_rules policy) = Inr rs"
    using map_err_total [of "\<lambda>rule. validateRule rtest rule data"] validateRule_total
    by blast
  let ?report = "\<lparr>policyId = policy_id policy, policyName = policy_name policy,
                  timestamp = now, results = rs, summary = calculateSummary rs\<rparr>"
  have "validatePolicy rtest now policy data = Inr ?report"
    by (simp add: validatePolicy_def rs)
  moreover have "failed (summary ?report)
      = total (summary ?report) - passed_count (summary ?report)"
    using calculateSummary_failed [of rs] by simp
  moreover have "criticalFailures (summary ?report) + highFailures (summary ?report)
         + mediumFailures (summary ?report) + lowFailures (summary ?report)
         = failed (summary ?report)"
    using calculateSummary_severities [of rs] by simp
  moreover have "criticalFailures (summary ?report)
      = int (length (filter (\<lambda>r. \<not> passed r \<and> severity r = critical) (results ?report)))"
    by (simp add: calculateSummary_def Let_def conj_commute)
  moreover have "highFailures (summary ?report)
      = int (length (filter (\<lambda>r. \<not> passed r \<and> severity r = high) (results ?report)))"
    by (simp add: calculateSummary_def Let_def conj_commute)
  moreover have "mediumFailures (summary ?report)
      = int (length (filter (\<lambda>r. \<not> passed r \<and> severity r = medium) (results ?report)))"
    by (simp add: calculateSummary_def Let_def conj_commute)
  moreover have "lowFailures (summary ?report)
      = int (length (filter (\<lambda>r. \<not> passed r \<and> severity r = low) (results ?report)))"
    by (simp add: calculateSummary_def Let_def conj_commute)
  ultimately show ?thesis by blast
qed

text \<open>
  Claim C1. \<^verbatim>\<open>isPolicyPassing\<close> holds exactly when the report has no critical and no
  high failures; replacing the medium and low failure counts by any numbers does
  not change the verdict.
\<close>

theorem isPolicyPassing_exact:
  "(isPolicyPassing report \<longleftrightarrow>
      criticalFailures (summary report) = 0 \<and> highFailures (summary report) = 0)
   \<and> isPolicyPassing
         (report\<lparr>summary := (summary report)\<lparr>mediumFailures := m, lowFailures := l\<rparr>\<rparr>)
       = isPolicyPassing report"
  by (simp add: isPolicyPassing_def)

section \<open>Properties of the audit log\<close>

lemma entry_rebuild:
  "\<lparr>entry_id = entry_id e, entry_timestamp = entry_timestamp e, action = action e,
    resourceType = resourceType e, resourceId = resourceId e, userId = userId e,
    details = details e\<rparr> = e"
  by (cases e) simp

lemma log_call_eq: "log_call e L = trimLogs (L\<lparr>logs := logs L @ [e]\<rparr>)"
  by (simp add: log_call_def log_action_def Let_def entry_rebuild)

lemma trunc_neg_nat: "trunc (- of_nat c) = - int c"
proof -
  have e: "- rat_of_nat c = of_int (- int c)" by simp
  have "\<lceil>- rat_of_nat c\<rceil> = - int c" unfolding e by (rule ceiling_of_int)
  moreover have "\<lfloor>- rat_of_nat c\<rfloor> = - int c" unfolding e by (rule floor_of_int)
  ultimately show ?thesis by (simp add: trunc_def)
qed

lemma nat_int_diff: "nat (int a - int b) = a - b"
  by arith

lemma trimLogs_pos:
  assumes "0 < c" and "maxLogSize L = Fin (of_nat c)"
  shows "logs (trimLogs L) = drop (length (logs L) - c) (logs L)"
    and "maxLogSize (trimLogs L) = Fin (of_nat c)"
  using assms by (auto simp: trimLogs_def trunc_neg_nat Let_def nat_int_diff)

lemma log_call_pos:
  assumes "0 < c" and "maxLogSize L = Fin (of_nat c)"
  shows "logs (log_call e L) = drop (length (logs L @ [e]) - c) (logs L @ [e])"
    and "maxLogSize (log_call e L) = Fin (of_nat c)"
  using assms trimLogs_pos [of c "L\<lparr>logs := logs L @ [e]\<rparr>"]
  by (simp_all add: log_call_eq)

lemma drop_last_window:
  "drop (length (drop (length xs - c) xs @ es) - c) (drop (length xs - c) xs @ es)
   = drop (length (xs @ es) - c) (xs @ es)"
proof (cases "length xs \<le> c")
  case True
  then show ?thesis by simp
next
  case False
  then have "length (drop (length xs - c) xs) = c" by simp
  with False show ?thesis by (simp add: add.commute)
qed

text \<open>
  With a capacity that is a positive whole number the log is a sliding window: it
  holds the last \<open>c\<close> entries appended, in their order.
\<close>

lemma log_calls_pos:
  assumes "0 < c" and "maxLogSize L = Fin (of_nat c)" and "length (logs L) \<le> c"
  shows "logs (log_calls es L) = drop (length (logs L @ es) - c) (logs L @ es)"
  using assms
proof (induction es arbitrary: L)
  case Nil
  then show ?case by simp
next
  case (Cons e es)
  let ?X = "logs L @ [e]"
  let ?L' = "log_call e L"
  have l: "logs ?L' = drop (length ?X - c) ?X"
    using log_call_pos(1) [OF Cons.prems(1,2)] .
  have m: "maxLogSize ?L' = Fin (of_nat c)"
    using log_call_pos(2) [OF Cons.prems(1,2)] .
  have b: "length (logs ?L') \<le> c"
    unfolding l using Cons.prems(3) by simp
  have "logs (log_calls (e # es) L) = logs (log_calls es ?L')" by simp
  also have "\<dots> = drop (length (logs ?L' @ es) - c) (logs ?L' @ es)"
    using Cons.IH [OF Cons.prems(1) m b] .
  also have "\<dots> = drop (length (?X @ es) - c) (?X @ es)"
    unfolding l by (rule drop_last_window)
  finally show ?case by simp
qed

lemma log_calls_bounded:
  assumes "0 < c"
  shows "length (logs (log_calls es (new_AuditLogger (Fin (of_nat c))))) \<le> c"
    and "logs (log_calls es (new_AuditLogger (Fin (of_nat c)))) = drop (length es - c) es"
  using log_calls_pos [OF assms, of "new_AuditLogger (Fin (of_nat c))" es]
  by (simp_all add: new_AuditLogger_def)

lemma trimLogs_zero: "maxLogSize L = Fin 0 \<Longrightarrow> trimLogs L = L"
  by (simp add: trimLogs_def trunc_def Let_def)

lemma log_calls_zero:
  "maxLogSize L = Fin 0 \<Longrightarrow> logs (log_calls es L) = logs L @ es"
proof (induction es arbitrary: L)
  case Nil
  show ?case by simp
next
  case (Cons e es)
  have "log_call e L = L\<lparr>logs := logs L @ [e]\<rparr>"
    using Cons.prems by (simp add: log_call_eq trimLogs_zero)
  with Cons show ?case by simp
qed

text \<open>
  Claim C4. The log never exceeds its capacity and keeps the most recent entries.
  This fails for capacity 0: \<^verbatim>\<open>trimLogs\<close> finds the log too long and calls
  \<^verbatim>\<open>slice(-0)\<close>, which is \<^verbatim>\<open>slice(0)\<close> and returns the whole array. A logger built
  with \<^verbatim>\<open>new AuditLogger(0)\<close> holds one entry after one call of \<^verbatim>\<open>log\<close>, and all
  entries ever logged after any sequence of calls.
\<close>

theorem capacity_zero_never_trims:
  "logs (log_call e (new_AuditLogger (Fin 0))) = [e]
   \<and> logs (log_calls es (new_AuditLogger (Fin 0))) = es"
proof -
  have "maxLogSize (new_AuditLogger (Fin 0)) = Fin 0" by (simp add: new_AuditLogger_def)
  from log_calls_zero [OF this, of "[e]"] log_calls_zero [OF this, of es]
  show ?thesis by (simp add: new_AuditLogger_def)
qed

section \<open>Properties of the registry\<close>

lemmas ex_defs = ex_registered_def ex_registered_dated_def ex_input_dated_def
  registerPolicy_def updatePolicy_def parsePolicy_def
  isValidPolicyInput_def ex_input_def ex_input_renamed_def ex_engine_def ex_readings_def
  parseRules_def String_of_def nullish_or_def has_def new_ComplianceService_def getPolicy_def
  Let_def trunc_def log_action_def policy_details_def default_AuditLogger_def
  new_AuditLogger_def trimLogs_def

lemma ex_registered_eval:
  "getPolicy ex_registered ''p1'' =
     Some \<lparr>policy_id = ''p1'', policy_name = ''Security'', policy_version = ''1.0.0'',
           policy_description = '''', policy_rules = [],
           createdAt = Date 1000, updatedAt = Date 1000\<rparr>"
  by (simp add: ex_registered_def registerPolicy_def parsePolicy_def isValidPolicyInput_def
      ex_input_def ex_engine_def ex_readings_def parseRules_def String_of_def nullish_or_def
      has_def new_ComplianceService_def getPolicy_def Let_def)

text \<open>
  Claim C2, as stated, fails. A policy registered from a document carrying
  \<^verbatim>\<open>createdAt: 1000\<close> and \<^verbatim>\<open>updatedAt: 5000\<close> is updated, with the clock at 3000, from a
  document that carries no dates and another id. The update succeeds and the stored
  id is unchanged, but the stored \<^verbatim>\<open>createdAt\<close> is now 3000, not the 1000 of the
  registration, and \<^verbatim>\<open>updatedAt\<close> went from 5000 back to 3000.
\<close>

theorem updatePolicy_createdAt_counterexample:
  "getPolicy ex_registered_dated ''p1'' =
     Some \<lparr>policy_id = ''p1'', policy_name = ''Security'', policy_version = ''1.0.0'',
           policy_description = [], policy_rules = [],
           createdAt = Date 1000, updatedAt = Date 5000\<rparr>
   \<and> fst (updatePolicy ex_engine (ex_readings 3000) ''p1'' ex_input_renamed ''user-2''
             ex_registered_dated) =
     Inr \<lparr>policy_id = ''p1'', policy_name = ''Security v2'', policy_version = ''1.0.0'',
          policy_description = [], policy_rules = [],
          createdAt = Date 3000, updatedAt = Date 3000\<rparr>
   \<and> getPolicy (snd (updatePolicy ex_engine (ex_readings 3000) ''p1'' ex_input_renamed
                        ''user-2'' ex_registered_dated)) ''p1'' =
     Some \<lparr>policy_id = ''p1'', policy_name = ''Security v2'', policy_version = ''1.0.0'',
           policy_description = [], policy_rules = [],
           createdAt = Date 3000, updatedAt = Date 3000\<rparr>
   \<and> Date 3000 \<noteq> Date 1000
   \<and> \<not> date_le (Date 5000) (Date 3000)"
  by (simp add: ex_defs)

text \<open>
  Claim C2, amended. After a successful \<^verbatim>\<open>updatePolicy(id, rawInput, userId)\<close> the
  stored record is the returned one, its id is \<^verbatim>\<open>id\<close> whatever \<^verbatim>\<open>rawInput\<close> says,
  its \<^verbatim>\<open>updatedAt\<close> is the clock reading taken by the update (so it is not before the
  previous \<^verbatim>\<open>updatedAt\<close> whenever that one is not after the clock), and its
  \<^verbatim>\<open>createdAt\<close> is the one parsed from \<^verbatim>\<open>rawInput\<close>: its \<^verbatim>\<open>createdAt\<close> when that is a
  date, and otherwise the clock reading taken by the parser.
\<close>

theorem updatePolicy_stored_record:
  assumes "updatePolicy en rd pid raw uid S = (Inr p, S')"
  shows "getPolicy S' pid = Some p
     \<and> policy_id p = pid
     \<and> updatedAt p = r_now rd
     \<and> createdAt p = (case parseDate en (own_property raw ''createdAt'') of
                         Some d \<Rightarrow> d | None \<Rightarrow> r_created rd)
     \<and> (\<forall>old. getPolicy S pid = Some old \<and> date_le (updatedAt old) (r_now rd)
            \<longrightarrow> date_le (updatedAt old) (updatedAt p))"
proof -
  from assms have h: "has (policies S) pid"
    by (auto simp: updatePolicy_def split: if_splits)
  from assms h obtain parsed where
    parsed: "parsePolicy en (r_created rd) (r_updated rd) raw = Inr parsed"
    and p: "p = parsed\<lparr>policy_id := pid, updatedAt := r_now rd\<rparr>"
    and S': "policies S' = AList.update pid p (policies S)"
    by (auto simp: updatePolicy_def Let_def split: sum.splits)
  have c: "createdAt parsed = (case parseDate en (own_property raw ''createdAt'') of
                         Some d \<Rightarrow> d | None \<Rightarrow> r_created rd)"
    using parsed by (auto simp: parsePolicy_def split: if_splits sum.splits)
  have "getPolicy S' pid = Some p"
    by (simp add: getPolicy_def S' update_conv')
  with p c show ?thesis by simp
qed

theorem updatePolicy_stored_record_witness:
  "fst (updatePolicy ex_engine (ex_readings 3000) ''p1'' ex_input_renamed ''user-2'' ex_registered)
     = Inr \<lparr>policy_id = ''p1'', policy_name = ''Security v2'', policy_version = ''1.0.0'',
            policy_description = [], policy_rules = [],
            createdAt = Date 3000, updatedAt = Date 3000\<rparr>
   \<and> getPolicy (snd (updatePolicy ex_engine (ex_readings 3000) ''p1'' ex_input_renamed
                        ''user-2'' ex_registered)) ''p1''
     = Some \<lparr>policy_id = ''p1'', policy_name = ''Security v2'', policy_version = ''1.0.0'',
            policy_description = [], policy_rules = [],
            createdAt = Date 3000, updatedAt = Date 3000\<rparr>
   \<and> map_option updatedAt (getPolicy ex_registered ''p1'') = Some (Date 1000)
   \<and> date_le (Date 1000) (Date 3000)"
proof -
  let ?p = "\<lparr>policy_id = ''p1'', policy_name = ''Security v2'', policy_version = ''1.0.0'',
            policy_description = [], policy_rules = [],
            createdAt = Date 3000, updatedAt = Date 3000\<rparr>"
  let ?u = "updatePolicy ex_engine (ex_readings 3000) ''p1'' ex_input_renamed ''user-2'' ex_registered"
  have f: "fst ?u = Inr ?p" by (simp add: ex_defs)
  then have h: "?u = (Inr ?p, snd ?u)" by (simp add: prod_eq_iff)
  from updatePolicy_stored_record [OF h]
  have r: "getPolicy (snd ?u) ''p1'' = Some ?p" by (rule conjunct1)
  have o: "map_option updatedAt (getPolicy ex_registered ''p1'') = Some (Date 1000)"
    by (simp add: ex_registered_eval)
  from f r o show ?thesis by simp
qed

text \<open>
  Claim C7. \<^verbatim>\<open>deletePolicy\<close> on an id that is not registered returns false and
  leaves the service as it was: the same policies, the same audit log.
\<close>

theorem deletePolicy_absent:
  "getPolicy S pid = None \<Longrightarrow> deletePolicy rd pid uid S = (False, S)"
  by (simp add: deletePolicy_def getPolicy_def has_def)

theorem deletePolicy_absent_witness:
  "getPolicy ex_registered ''ghost'' = None
   \<and> deletePolicy (ex_readings 2000) ''ghost'' ''user-1'' ex_registered = (False, ex_registered)"
proof -
  have g: "getPolicy ex_registered ''ghost'' = None" by (simp add: ex_defs)
  from g deletePolicy_absent [OF g] show ?thesis by simp
qed

text \<open>
  Claim C9. When the document parses to a policy whose id is already registered,
  \<^verbatim>\<open>registerPolicy\<close> throws the duplicate-id error and the service is as it was: the
  id still maps to the stored policy and the audit log has no new entry.
\<close>

theorem registerPolicy_duplicate:
  assumes "parsePolicy en (r_created rd) (r_updated rd) raw = Inr p"
    and "getPolicy S (policy_id p) = Some stored"
  shows "registerPolicy en rd raw uid S = (Inl (AlreadyExists (policy_id p)), S)
     \<and> getPolicy (snd (registerPolicy en rd raw uid S)) (policy_id p) = Some stored
     \<and> logs (auditLogger (snd (registerPolicy en rd raw uid S))) = logs (auditLogger S)"
  using assms by (simp add: registerPolicy_def getPolicy_def has_def)

theorem registerPolicy_duplicate_witness:
  "registerPolicy ex_engine (ex_readings 2000) ex_input ''user-2'' ex_registered
     = (Inl (AlreadyExists ''p1''), ex_registered)
   \<and> map_option createdAt (getPolicy ex_registered ''p1'') = Some (Date 1000)
   \<and> length (logs (auditLogger ex_registered)) = 1"
proof -
  let ?p = "\<lparr>policy_id = ''p1'', policy_name = ''Security'', policy_version = ''1.0.0'',
           policy_description = [], policy_rules = [],
           createdAt = Date 2000, updatedAt = Date 2000\<rparr>"
  have a: "parsePolicy ex_engine (r_created (ex_readings 2000)) (r_updated (ex_readings 2000))
             ex_input = Inr ?p"
    by (simp add: ex_defs)
  have b: "getPolicy ex_registered (policy_id ?p) =
     Some \<lparr>policy_id = ''p1'', policy_name = ''Security'', policy_version = ''1.0.0'',
           policy_description = [], policy_rules = [],
           createdAt = Date 1000, updatedAt = Date 1000\<rparr>"
    using ex_registered_eval by simp
  have c: "length (logs (auditLogger ex_registered)) = 1" by (simp add: ex_defs)
  from registerPolicy_duplicate [OF a b, of "''user-2''"] ex_registered_eval c
  show ?thesis by simp
qed

text \<open>
  Claim C10. \<^verbatim>\<open>updatePolicy\<close> on an id that is not registered throws the not-found
  error whatever the document is, also one the parser rejects, and the service is
  as it was.
\<close>

theorem updatePolicy_absent:
  "getPolicy S pid = None \<Longrightarrow>
     updatePolicy en rd pid raw uid S = (Inl (PolicyNotFound pid), S)"
  by (simp add: updatePolicy_def getPolicy_def has_def)

theorem updatePolicy_absent_witness:
  "getPolicy ex_registered ''ghost'' = None
   \<and> parsePolicy ex_engine (Date 2000) (Date 2000) JNull = Inl InvalidPolicyFormat
   \<and> updatePolicy ex_engine (ex_readings 2000) ''ghost'' JNull ''user-1'' ex_registered
       = (Inl (PolicyNotFound ''ghost''), ex_registered)"
proof -
  have g: "getPolicy ex_registered ''ghost'' = None" by (simp add: ex_defs)
  have "parsePolicy ex_engine (Date 2000) (Date 2000) JNull = Inl InvalidPolicyFormat"
    by (simp add: parsePolicy_def isValidPolicyInput_def)
  with g updatePolicy_absent [OF g] show ?thesis by simp
qed

end
